theory Spec2Isabelle
  imports Complex_Main "HOL-Library.AList"
begin

section \<open>JavaScript values\<close>

text \<open>
  The helpers of \<^verbatim>\<open>packages/solid/web/src/index.ts\<close> inspect plain JavaScript values:
  they test truthiness, \<^verbatim>\<open>typeof\<close>, read properties and enumerate own keys. No
  arithmetic is done on numbers, so a number is kept as the value it denotes.
\<close>

datatype jsnum = NaN | PosInfinity | NegInfinity | Finite rat

text \<open>DOM nodes are known by name: the three nodes of the document that the helpers
  name, any other \<^verbatim>\<open><head>\<close> element (an instance of \<^verbatim>\<open>HTMLHeadElement\<close> too), and
  any other node.\<close>

datatype node = DocumentElement | DocumentHead | DocumentBody | HeadElement nat | OtherNode nat

datatype jsval =
    JUndefined
  | JNull
  | JBool bool
  | JNum jsnum
  | JStr string
  | JObj "(string \<times> jsval) list"
  | JFun nat
  | JNode node

text \<open>An object is the list of its own enumerable properties, in the order of
  \<^verbatim>\<open>Object.keys\<close>. A function value is opaque and known by an identifier; a DOM
  node is opaque too (the helpers never read a property of one).\<close>

fun truthy :: "jsval \<Rightarrow> bool" where
  "truthy JUndefined = False"
| "truthy JNull = False"
| "truthy (JBool b) = b"
| "truthy (JNum n) = (n \<noteq> NaN \<and> n \<noteq> Finite 0)"
| "truthy (JStr s) = (s \<noteq> [])"
| "truthy (JObj kvs) = True"
| "truthy (JFun f) = True"
| "truthy (JNode n) = True"

fun typeof :: "jsval \<Rightarrow> string" where
  "typeof JUndefined = ''undefined''"
| "typeof JNull = ''object''"
| "typeof (JBool b) = ''boolean''"
| "typeof (JNum n) = ''number''"
| "typeof (JStr s) = ''string''"
| "typeof (JObj kvs) = ''object''"
| "typeof (JFun f) = ''function''"
| "typeof (JNode n) = ''object''"

text \<open>\<^verbatim>\<open>value != null\<close>: loose inequality, false for both null and undefined.\<close>

fun not_nullish :: "jsval \<Rightarrow> bool" where
  "not_nullish JUndefined = False"
| "not_nullish JNull = False"
| "not_nullish v = True"

fun string_of_nat :: "nat \<Rightarrow> string" where
  "string_of_nat n =
     (if n < 10 then [char_of (48 + n)]
      else string_of_nat (n div 10) @ [char_of (48 + n mod 10)])"

declare string_of_nat.simps [simp del]

text \<open>Own enumerable properties: those of an object; the indexed characters of a
  string; none for the other primitives and for functions.\<close>

fun own_props :: "jsval \<Rightarrow> (string \<times> jsval) list" where
  "own_props (JObj kvs) = kvs"
| "own_props (JStr s) = map (\<lambda>i. (string_of_nat i, JStr [s ! i])) [0..<length s]"
| "own_props v = []"

definition Object_keys :: "jsval \<Rightarrow> string list" where
  "Object_keys v = map fst (own_props v)"

text \<open>\<^verbatim>\<open>'key' in v\<close>, evaluated by the source only on a truthy value of type object.\<close>

definition has_prop :: "string \<Rightarrow> jsval \<Rightarrow> bool" where
  "has_prop k v = (k \<in> fst ` set (own_props v))"

text \<open>Property read \<^verbatim>\<open>v.k\<close> / \<^verbatim>\<open>v[k]\<close>; a missing property reads as undefined.
  The source reads properties only of values it has tested truthy, so the TypeError
  of a read on null or undefined is never reached.\<close>

definition get_prop :: "jsval \<Rightarrow> string \<Rightarrow> jsval" where
  "get_prop v k = (case map_of (own_props v) k of Some x \<Rightarrow> x | None \<Rightarrow> JUndefined)"

section \<open>The host: the root element's DOM interface\<close>

text \<open>
  \<^verbatim>\<open>document.documentElement\<close> belongs to the host, not to this code. Its three
  operations used by \<^verbatim>\<open>hydrateDocument\<close> act on a world \<open>'w\<close> and may throw a host
  exception \<open>'x\<close> (\<open>Inl\<close>). \<^verbatim>\<open>String(value)\<close> is the host's string coercion.
\<close>

record ('w, 'x) host =
  set_className :: "jsval \<Rightarrow> 'w \<Rightarrow> 'x + 'w"
  setAttribute :: "string \<Rightarrow> string \<Rightarrow> 'w \<Rightarrow> 'x + 'w"
  removeAttribute :: "string \<Rightarrow> 'w \<Rightarrow> 'x + 'w"
  String_of :: "jsval \<Rightarrow> string"

text \<open>An operation on \<^verbatim>\<open>document.documentElement\<close>, as the source issues it.\<close>

datatype dom_call =
    SetClassName jsval
  | SetAttribute string string
  | RemoveAttribute string

fun perform :: "('w, 'x) host \<Rightarrow> dom_call \<Rightarrow> 'w \<Rightarrow> 'x + 'w" where
  "perform h (SetClassName v) w = set_className h v w"
| "perform h (SetAttribute k s) w = setAttribute h k s w"
| "perform h (RemoveAttribute k) w = removeAttribute h k w"

section \<open>hydrateDocument\<close>

text \<open>The body of the \<^verbatim>\<open>forEach\<close> callback (lines 121-139): which operation, if
  any, the key \<open>key\<close> of \<open>props\<close> causes.\<close>

definition attr_call :: "(jsval \<Rightarrow> string) \<Rightarrow> jsval \<Rightarrow> string \<Rightarrow> dom_call option" where
  "attr_call String props key =
     (if key \<noteq> ''children'' \<and> key \<noteq> ''ref'' then
        (let value = get_prop props key in
         if not_nullish value then
           (if key = ''className'' \<or> key = ''class'' then Some (SetClassName value)
            else if typeof value = ''boolean'' then
              (if truthy value then Some (SetAttribute key '''')
               else Some (RemoveAttribute key))
            else Some (SetAttribute key (String value)))
         else None)
      else None)"

definition apply_attr :: "('w, 'x) host \<Rightarrow> jsval \<Rightarrow> string \<Rightarrow> 'w \<Rightarrow> 'x + 'w" where
  "apply_attr h props key w =
     (case attr_call (String_of h) props key of
        None \<Rightarrow> Inr w
      | Some c \<Rightarrow> perform h c w)"

text \<open>\<^verbatim>\<open>Array.prototype.forEach\<close> with a callback that may throw: the first
  exception ends the iteration.\<close>

fun forEach :: "('a \<Rightarrow> 'w \<Rightarrow> 'x + 'w) \<Rightarrow> 'a list \<Rightarrow> 'w \<Rightarrow> 'x + 'w" where
  "forEach f [] w = Inr w"
| "forEach f (a # as) w = (case f a w of Inl x \<Rightarrow> Inl x | Inr w' \<Rightarrow> forEach f as w')"

text \<open>A producer is a zero-argument function: it runs in the world and returns a
  value or throws.\<close>

type_synonym ('w, 'x) producer = "'w \<Rightarrow> 'x + (jsval \<times> 'w)"

text \<open>\<^verbatim>\<open>wrappedFn\<close> (lines 111-149).\<close>

definition wrappedFn :: "('w, 'x) host \<Rightarrow> ('w, 'x) producer \<Rightarrow> ('w, 'x) producer" where
  "wrappedFn h fn w =
     (case fn w of
        Inl x \<Rightarrow> Inl x
      | Inr (result, w1) \<Rightarrow>
          if truthy result \<and> typeof result = ''object'' \<and> has_prop ''type'' result
             \<and> get_prop result ''type'' = JStr ''html''
          then
            (if truthy (get_prop result ''props'') then
               (let props = get_prop result ''props'' in
                case forEach (apply_attr h props) (Object_keys props) w1 of
                  Inl x \<Rightarrow> Inl x
                | Inr w2 \<Rightarrow>
                    if truthy (get_prop props ''children'')
                    then Inr (get_prop props ''children'', w2)
                    else Inr (result, w2))
             else Inr (result, w1))
          else Inr (result, w1))"

text \<open>The result is an \<^verbatim>\<open><html>\<close> wrapper: an object whose \<^verbatim>\<open>type\<close> is the
  string \<^verbatim>\<open>"html"\<close>.\<close>

fun is_html_wrapper :: "jsval \<Rightarrow> bool" where
  "is_html_wrapper (JObj kvs) = (map_of kvs ''type'' = Some (JStr ''html''))"
| "is_html_wrapper v = False"

text \<open>The operations a whole \<open>props\<close> value causes, in key order.\<close>

definition html_calls :: "(jsval \<Rightarrow> string) \<Rightarrow> jsval \<Rightarrow> dom_call list" where
  "html_calls String props = List.map_filter (attr_call String props) (Object_keys props)"

text \<open>A plain host for examples: the world is the attribute list of the root
  element, \<^verbatim>\<open>className\<close> is its \<^verbatim>\<open>class\<close> attribute and nothing throws. Strings
  coerce to themselves, booleans, null and undefined to their names; the examples
  coerce no other value.\<close>

definition plain_String :: "jsval \<Rightarrow> string" where
  "plain_String v =
     (case v of JStr s \<Rightarrow> s | JBool b \<Rightarrow> (if b then ''true'' else ''false'')
      | JNull \<Rightarrow> ''null'' | JUndefined \<Rightarrow> ''undefined'' | _ \<Rightarrow> ''[object]'')"

definition plain_host :: "((string \<times> string) list, unit) host" where
  "plain_host =
     \<lparr> set_className = (\<lambda>v w. Inr (AList.update ''class'' (plain_String v) w)),
       setAttribute = (\<lambda>k s w. Inr (AList.update k s w)),
       removeAttribute = (\<lambda>k w. Inr (AList.delete k w)),
       String_of = plain_String \<rparr>"

text \<open>The reflection of one attribute as the specification words it (section 4.1):
  \<^verbatim>\<open>children\<close> and \<^verbatim>\<open>ref\<close> are excluded, null and undefined values are skipped,
  \<^verbatim>\<open>class\<close>/\<^verbatim>\<open>className\<close> assign \<^verbatim>\<open>className\<close>, booleans toggle the attribute's
  presence, every other value is set after string coercion. It is compared with
  \<open>attr_call\<close>, which follows the source.\<close>

definition reflected_call :: "(jsval \<Rightarrow> string) \<Rightarrow> string \<Rightarrow> jsval \<Rightarrow> dom_call option" where
  "reflected_call String k v =
     (if k = ''children'' \<or> k = ''ref'' \<or> v = JNull \<or> v = JUndefined then None
      else if k = ''class'' \<or> k = ''className'' then Some (SetClassName v)
      else if v = JBool True then Some (SetAttribute k '''')
      else if v = JBool False then Some (RemoveAttribute k)
      else Some (SetAttribute k (String v)))"

text \<open>The producer \<^verbatim>\<open>() => v\<close>.\<close>

definition returning :: "jsval \<Rightarrow> ('w, 'x) producer" where
  "returning v w = Inr (v, w)"

text \<open>Example results: \<^verbatim>\<open><html lang="fr" class="dark" ...>body</html>\<close>, a wrapper
  whose \<^verbatim>\<open>children\<close> is null (as in the test suite), and one with null and undefined
  attribute values.\<close>

definition example_html :: jsval where
  "example_html =
     JObj [(''type'', JStr ''html''),
           (''props'', JObj [(''lang'', JStr ''fr''), (''class'', JStr ''dark''),
                            (''data-loaded'', JBool True), (''data-hidden'', JBool False),
                            (''data-test'', JNull), (''ref'', JFun 0),
                            (''children'', JStr ''body'')])]"

definition childless_html :: jsval where
  "childless_html =
     JObj [(''type'', JStr ''html''),
           (''props'', JObj [(''lang'', JStr ''fr''), (''children'', JNull)])]"

definition nullish_html :: jsval where
  "nullish_html =
     JObj [(''type'', JStr ''html''),
           (''props'', JObj [(''data-test'', JNull), (''data-undefined'', JUndefined),
                            (''lang'', JStr ''fr''), (''children'', JNull)])]"

subsection \<open>The exported function\<close>

text \<open>
  \<^verbatim>\<open>enableHydration\<close> (solid-js) and \<^verbatim>\<open>hydrateCore\<close> (\<^verbatim>\<open>hydrate\<close> of ./client.js) are
  imported: they are parameters. A disposer \<^verbatim>\<open>() => void\<close> is a callable that acts on
  the world and may throw.
\<close>

type_synonym ('w, 'x) disposer = "'w \<Rightarrow> 'x + 'w"

record ('w, 'x) hydration_env =
  enableHydration :: "'w \<Rightarrow> 'w"
  hydrateCore :: "('w, 'x) producer \<Rightarrow> node \<Rightarrow> jsval \<Rightarrow> 'w \<Rightarrow> 'x + (('w, 'x) disposer \<times> 'w)"

text \<open>\<^verbatim>\<open>hydrateDocument\<close> (lines 104-155); absent \<open>options\<close> are undefined.\<close>

definition hydrateDocument ::
  "('w, 'x) hydration_env \<Rightarrow> ('w, 'x) host \<Rightarrow> ('w, 'x) producer \<Rightarrow> jsval
     \<Rightarrow> 'w \<Rightarrow> 'x + (('w, 'x) disposer \<times> 'w)" where
  "hydrateDocument rt h fn options w =
     hydrateCore rt (wrappedFn h fn) DocumentElement options (enableHydration rt w)"

definition safe_to_invoke :: "('w, 'x) disposer \<Rightarrow> bool" where
  "safe_to_invoke d = (\<forall>w. \<exists>w'. d w = Inr w')"

definition returns_safe_disposers ::
  "(('w, 'x) producer \<Rightarrow> node \<Rightarrow> jsval \<Rightarrow> 'w \<Rightarrow> 'x + (('w, 'x) disposer \<times> 'w)) \<Rightarrow> bool" where
  "returns_safe_disposers hc =
     (\<forall>code element options w d w'. hc code element options w = Inr (d, w') \<longrightarrow> safe_to_invoke d)"

text \<open>A page for the examples: the attributes of the root element, whether hydration
  mode is enabled, and what has been hydrated into which element with which options.\<close>

record page =
  root_attributes :: "(string \<times> string) list"
  hydration_mode :: bool
  hydrated :: "(node \<times> jsval \<times> jsval) list"

definition page_host :: "(page, unit) host" where
  "page_host =
     \<lparr> set_className =
         (\<lambda>v p. Inr (p\<lparr>root_attributes := AList.update ''class'' (plain_String v) (root_attributes p)\<rparr>)),
       setAttribute = (\<lambda>k s p. Inr (p\<lparr>root_attributes := AList.update k s (root_attributes p)\<rparr>)),
       removeAttribute = (\<lambda>k p. Inr (p\<lparr>root_attributes := AList.delete k (root_attributes p)\<rparr>)),
       String_of = plain_String \<rparr>"

text \<open>Modelled from the spec: the disposer that the core hydration routine returns;
  the routine (\<^verbatim>\<open>hydrate\<close> of ./client.js) is not in the sources. The specification
  says that it ``Returns a disposer callback'', ``idempotent-safe to invoke'': the
  disposer takes what was hydrated into the element off the page, and never throws.\<close>

definition spec_dispose :: "node \<Rightarrow> (page, unit) disposer" where
  "spec_dispose element p = Inr (p\<lparr>hydrated := filter (\<lambda>r. fst r \<noteq> element) (hydrated p)\<rparr>)"

text \<open>Modelled from the spec: the core hydration routine \<^verbatim>\<open>hydrate\<close> of ./client.js,
  which is not in the sources. The specification says that the producer is invoked,
  that the produced node is hydrated ``into the existing root element'' with the
  caller's options, and that a disposer is returned.\<close>

definition spec_hydrateCore ::
  "(page, unit) producer \<Rightarrow> node \<Rightarrow> jsval \<Rightarrow> page \<Rightarrow> unit + ((page, unit) disposer \<times> page)" where
  "spec_hydrateCore code element options p =
     (case code p of
        Inl x \<Rightarrow> Inl x
      | Inr (n, p') \<Rightarrow>
          Inr (spec_dispose element, p'\<lparr>hydrated := (element, n, options) # hydrated p'\<rparr>))"

text \<open>Modelled from the spec: \<^verbatim>\<open>enableHydration\<close> of solid-js, which is not in the
  sources, ``enable[s] the library's hydration mode''; with it, the routine above.\<close>

definition spec_hydration :: "(page, unit) hydration_env" where
  "spec_hydration =
     \<lparr> enableHydration = (\<lambda>p. p\<lparr>hydration_mode := True\<rparr>), hydrateCore = spec_hydrateCore \<rparr>"

definition blank_page :: page where
  "blank_page = \<lparr> root_attributes = [], hydration_mode = False, hydrated = [] \<rparr>"

section \<open>createElement\<close>

definition SVG_NAMESPACE :: string where
  "SVG_NAMESPACE = ''http://www.w3.org/2000/svg''"

text \<open>Which method of \<^verbatim>\<open>document\<close> creates the element, and with what.\<close>

datatype creation =
    CreateElementNS string string
  | CreateElement string jsval

text \<open>\<^verbatim>\<open>createElement\<close> (lines 40-44). The defaults \<^verbatim>\<open>isSVG = false\<close> and
  \<^verbatim>\<open>is = undefined\<close> replace an argument that is undefined or missing.\<close>

definition createElement :: "string \<Rightarrow> jsval \<Rightarrow> jsval \<Rightarrow> creation" where
  "createElement tagName isSVG is =
     (if truthy (if isSVG = JUndefined then JBool False else isSVG)
      then CreateElementNS SVG_NAMESPACE tagName
      else CreateElement tagName is)"

section \<open>createDynamic and Dynamic\<close>

text \<open>A props object of the library is reactive: its keys are fixed, and reading a
  property yields the value it has in the current world.\<close>

type_synonym 'w props = "(string \<times> ('w \<Rightarrow> jsval)) list"

definition read_prop :: "'w props \<Rightarrow> string \<Rightarrow> 'w \<Rightarrow> jsval" where
  "read_prop props k w = (case map_of props k of Some g \<Rightarrow> g w | None \<Rightarrow> JUndefined)"

text \<open>
  What \<^verbatim>\<open>createDynamic\<close> and \<^verbatim>\<open>Dynamic\<close> import: the reactive primitives of solid-js,
  the rendering primitives of ./client.js, the document, and the call of a component
  function. They are parameters; each acts on the world and may throw.
\<close>

record ('w, 'x) dynamic_env =
  isDev :: bool
  SVGElements :: "string set"
  sharedConfig_context :: "'w \<Rightarrow> jsval"
  createMemo :: "('w, 'x) producer \<Rightarrow> 'w \<Rightarrow> 'x + (('w, 'x) producer \<times> 'w)"
  untrack :: "('w, 'x) producer \<Rightarrow> ('w, 'x) producer"
  assign_DEVCOMP :: "nat \<Rightarrow> 'w \<Rightarrow> 'w"
  call_component :: "nat \<Rightarrow> 'w props \<Rightarrow> ('w, 'x) producer"
  getNextElement :: "('w, 'x) producer"
  create :: "creation \<Rightarrow> ('w, 'x) producer"
  spread :: "jsval \<Rightarrow> 'w props \<Rightarrow> bool \<Rightarrow> 'w \<Rightarrow> 'x + 'w"
  splitProps :: "'w props \<Rightarrow> string list \<Rightarrow> 'w props \<times> 'w props"

text \<open>The body of the memo of \<^verbatim>\<open>createDynamic\<close> (lines 243-263), for the current value
  \<open>component\<close> of \<^verbatim>\<open>cached()\<close>: the \<^verbatim>\<open>switch\<close> on \<^verbatim>\<open>typeof component\<close>.\<close>

fun dynamic_body ::
  "('w, 'x) dynamic_env \<Rightarrow> 'w props \<Rightarrow> jsval \<Rightarrow> ('w, 'x) producer" where
  "dynamic_body env props (JFun f) w =
     untrack env (call_component env f props) (if isDev env then assign_DEVCOMP env f w else w)"
| "dynamic_body env props (JStr tag) w =
     (let isSvg = (tag \<in> SVGElements env) in
      case (if truthy (sharedConfig_context env w) then getNextElement env w
            else (case untrack env (\<lambda>v. Inr (read_prop props ''is'' v, v)) w of
                    Inl x \<Rightarrow> Inl x
                  | Inr (is, w') \<Rightarrow> create env (createElement tag (JBool isSvg) is) w')) of
        Inl x \<Rightarrow> Inl x
      | Inr (el, w1) \<Rightarrow>
          (case spread env el props isSvg w1 of
             Inl x \<Rightarrow> Inl x
           | Inr w2 \<Rightarrow> Inr (el, w2)))"
| "dynamic_body env props component w = Inr (JUndefined, w)"

text \<open>The function given to the outer \<^verbatim>\<open>createMemo\<close>: it reads \<^verbatim>\<open>cached()\<close>.\<close>

definition dynamic_computation ::
  "('w, 'x) dynamic_env \<Rightarrow> ('w, 'x) producer \<Rightarrow> 'w props \<Rightarrow> ('w, 'x) producer" where
  "dynamic_computation env cached props w =
     (case cached w of
        Inl x \<Rightarrow> Inl x
      | Inr (component, w') \<Rightarrow> dynamic_body env props component w')"

text \<open>\<^verbatim>\<open>createDynamic\<close> (lines 237-265): it returns the accessor of the outer memo.\<close>

definition createDynamic ::
  "('w, 'x) dynamic_env \<Rightarrow> ('w, 'x) producer \<Rightarrow> 'w props
     \<Rightarrow> 'w \<Rightarrow> 'x + (('w, 'x) producer \<times> 'w)" where
  "createDynamic env component props w =
     (case createMemo env component w of
        Inl x \<Rightarrow> Inl x
      | Inr (cached, w1) \<Rightarrow> createMemo env (dynamic_computation env cached props) w1)"

text \<open>\<^verbatim>\<open>Dynamic\<close> (lines 274-277).\<close>

definition Dynamic ::
  "('w, 'x) dynamic_env \<Rightarrow> 'w props \<Rightarrow> 'w \<Rightarrow> 'x + (('w, 'x) producer \<times> 'w)" where
  "Dynamic env props =
     (let others = snd (splitProps env props [''component''])
      in createDynamic env (\<lambda>w. Inr (read_prop props ''component'' w, w)) others)"

text \<open>
  Modelled from the spec: \<^verbatim>\<open>splitProps\<close> of solid-js, which is not in the sources. The
  specification counts it among the primitives ``consumed through a stable API'' and
  says no more; the model is the partition of the properties by key that
  \<^verbatim>\<open>const [, others] = splitProps(props, ["component"])\<close> relies on: the listed
  properties first, the others second.
\<close>

definition split_props :: "'w props \<Rightarrow> string list \<Rightarrow> 'w props \<times> 'w props" where
  "split_props props keys =
     (filter (\<lambda>kv. fst kv \<in> set keys) props, filter (\<lambda>kv. fst kv \<notin> set keys) props)"

section \<open>Portal\<close>




text \<open>
  \<^descr> \<open>SetOwnerUser False\<close>: \<^verbatim>\<open>(getOwner() as any).user = false\<close>;
  \<^descr> \<open>CreateContentMemo\<close>:
    \<^verbatim>\<open>content = runWithOwner(owner, () => createMemo(() => props.children))\<close>;
  \<^descr> \<open>CreateSignal False\<close>: \<^verbatim>\<open>createSignal(false)\<close>, the signal \<^verbatim>\<open>clean\<close>;
  \<^descr> \<open>CreateRootInsert el\<close>:
    \<^verbatim>\<open>createRoot(dispose => insert(el, () => (!clean() ? content() : dispose()), null))\<close>;
  \<^descr> \<open>OnCleanup (SetClean True)\<close>: \<^verbatim>\<open>onCleanup(() => setClean(true))\<close>;
  \<^descr> \<open>OnCleanup (RemoveChild el)\<close>: \<^verbatim>\<open>onCleanup(() => el.removeChild(container))\<close>;
  \<^descr> \<open>CreateContainer c\<close>: the document method \<open>c\<close> creates the container;
  \<^descr> \<open>AttachShadow\<close>: \<^verbatim>\<open>container.attachShadow({ mode: "open" })\<close>;
  \<^descr> \<open>DefineHost\<close>: \<^verbatim>\<open>Object.defineProperty(container, "_$host", ...)\<close>, a getter of
    \<^verbatim>\<open>marker.parentNode\<close>;
  \<^descr> \<open>Insert r\<close>: \<^verbatim>\<open>insert(renderRoot, content)\<close>;
  \<^descr> \<open>AppendChild el\<close>: \<^verbatim>\<open>el.appendChild(container)\<close>;
  \<^descr> \<open>CallRef f\<close>: \<^verbatim>\<open>props.ref(container)\<close>.
\<close>







text \<open>\<^verbatim>\<open>mount = () => props.mount || document.body\<close>, read in the world \<open>w\<close>.\<close>

definition mount :: "'w props \<Rightarrow> 'w \<Rightarrow> jsval" where
  "mount props w =
     (if truthy (read_prop props ''mount'' w) then read_prop props ''mount'' w
      else JNode DocumentBody)"



section \<open>Example environments\<close>

text \<open>An environment for the examples. The world is the log of the calls made; a memo
  is evaluated when it is created and its accessor returns that value; a component
  returns the string \<^verbatim>\<open>"rendered"\<close>; \<open>hydrating_now\<close> says whether a hydration context
  is active.\<close>

definition logging_env :: "bool \<Rightarrow> (string list, unit) dynamic_env" where
  "logging_env hydrating_now =
     \<lparr> isDev = False,
       SVGElements = {''svg'', ''g'', ''circle''},
       sharedConfig_context = (\<lambda>w. if hydrating_now then JObj [] else JUndefined),
       createMemo = (\<lambda>c w. case c w of Inl x \<Rightarrow> Inl x | Inr (v, w') \<Rightarrow> Inr (returning v, w')),
       untrack = (\<lambda>c w. case c (w @ [''untrack'']) of Inl x \<Rightarrow> Inl x
                         | Inr (v, w') \<Rightarrow> Inr (v, w' @ [''tracked''])),
       assign_DEVCOMP = (\<lambda>f w. w @ [''DEVCOMP'']),
       call_component = (\<lambda>f ps w. Inr (JStr ''rendered'', w @ [''component''])),
       getNextElement = (\<lambda>w. Inr (JNode (OtherNode 0), w @ [''getNextElement''])),
       create = (\<lambda>c w. Inr (JNode (OtherNode 1),
                  w @ [case c of CreateElementNS ns t \<Rightarrow> ''createElementNS '' @ t
                       | CreateElement t is \<Rightarrow> ''createElement '' @ t])),
       spread = (\<lambda>el ps svg w. Inr (w @ [''spread''])),
       splitProps = split_props \<rparr>"

text \<open>Example props: \<^verbatim>\<open>component\<close> reads \<^verbatim>\<open>"circle"\<close> in the empty world and
  undefined later; the props of a portal, read at the times 0, 1, 2, ...\<close>

definition example_props :: "string list props" where
  "example_props =
     [(''component'', \<lambda>w. if w = [] then JStr ''circle'' else JUndefined),
      (''r'', \<lambda>w. JNum (Finite 5))]"


section \<open>Properties of hydrateDocument\<close>

lemma is_html_wrapper_iff:
  "is_html_wrapper r =
     (truthy r \<and> typeof r = ''object'' \<and> has_prop ''type'' r \<and> get_prop r ''type'' = JStr ''html'')"
proof (cases r)
  case (JObj kvs)
  show ?thesis
  proof (cases "map_of kvs ''type''")
    case None
    then have "''type'' \<notin> fst ` set kvs" by (simp add: map_of_eq_None_iff)
    with None JObj show ?thesis by (simp add: has_prop_def get_prop_def)
  next
    case (Some v)
    then have "''type'' \<in> fst ` set kvs" by (metis map_of_eq_None_iff option.distinct(1))
    with Some JObj show ?thesis by (simp add: has_prop_def get_prop_def)
  qed
qed (simp_all add: has_prop_def get_prop_def)

text \<open>
  C4. When the producer returns a value that is not an object whose \<^verbatim>\<open>type\<close> is
  \<^verbatim>\<open>"html"\<close> (null, undefined, a string, a number, a boolean, a function, any
  other object), the wrapped producer returns normally, with exactly that value and
  exactly the world the producer left. This holds for every host, also one whose
  operations all throw or all change the world: no operation on the root element is
  invoked.
\<close>

theorem wrappedFn_passthrough:
  assumes "fn w = Inr (result, wp)" and "\<not> is_html_wrapper result"
  shows "wrappedFn h fn w = Inr (result, wp)"
  using assms by (simp add: wrappedFn_def is_html_wrapper_iff [symmetric])

theorem wrappedFn_passthrough_witness:
  "wrappedFn plain_host (\<lambda>w. Inr (JNum (Finite 42), w)) [(''lang'', ''en'')]
     = Inr (JNum (Finite 42), [(''lang'', ''en'')])
   \<and> wrappedFn plain_host (\<lambda>w. Inr (JObj [(''type'', JStr ''div''), (''props'', JObj [])], w)) []
     = Inr (JObj [(''type'', JStr ''div''), (''props'', JObj [])], [])"
  using wrappedFn_passthrough [of "\<lambda>w. Inr (JNum (Finite 42), w)" "[(''lang'', ''en'')]"
      "JNum (Finite 42)" "[(''lang'', ''en'')]" plain_host]
    wrappedFn_passthrough [of "\<lambda>w. Inr (JObj [(''type'', JStr ''div''), (''props'', JObj [])], w)"
      "[]" "JObj [(''type'', JStr ''div''), (''props'', JObj [])]" "[]" plain_host]
  by simp

lemma not_nullish_iff: "not_nullish v = (v \<noteq> JNull \<and> v \<noteq> JUndefined)"
  by (cases v) simp_all

lemma typeof_boolean_iff: "(typeof v = ''boolean'') = (\<exists>b. v = JBool b)"
  by (cases v) simp_all

lemma attr_call_reflected:
  "attr_call String props k = reflected_call String k (get_prop props k)"
  by (auto simp: attr_call_def reflected_call_def Let_def not_nullish_iff typeof_boolean_iff)

lemma forEach_apply_attr:
  "forEach (apply_attr h props) ks w
     = forEach (perform h) (List.map_filter (attr_call (String_of h) props) ks) w"
proof (induction ks arbitrary: w)
  case Nil
  show ?case by simp
next
  case (Cons k ks)
  show ?case
  proof (cases "attr_call (String_of h) props k")
    case None
    with Cons show ?thesis by (simp add: apply_attr_def)
  next
    case (Some c)
    with Cons show ?thesis by (simp add: apply_attr_def split: sum.splits)
  qed
qed

lemma wrappedFn_html:
  assumes "fn w = Inr (result, wp)" and "is_html_wrapper result"
    and "get_prop result ''props'' = JObj ps"
  shows "wrappedFn h fn w =
     (case forEach (perform h) (html_calls (String_of h) (JObj ps)) wp of
        Inl x \<Rightarrow> Inl x
      | Inr wq \<Rightarrow> Inr (if truthy (get_prop (JObj ps) ''children'')
                      then get_prop (JObj ps) ''children'' else result, wq))"
  using assms
  by (simp add: wrappedFn_def is_html_wrapper_iff [symmetric] forEach_apply_attr html_calls_def
      split: sum.splits)

lemma get_prop_distinct:
  "distinct (map fst ps) \<Longrightarrow> (k, v) \<in> set ps \<Longrightarrow> get_prop (JObj ps) k = v"
  by (simp add: get_prop_def)

lemma map_filter_mem:
  "k \<in> set ks \<Longrightarrow> f k = Some c \<Longrightarrow> c \<in> set (List.map_filter f ks)"
  by (auto simp: List.map_filter_def intro!: image_eqI [where x = k])

lemma attr_call_nullish:
  "get_prop props k = JNull \<or> get_prop props k = JUndefined \<Longrightarrow> attr_call String props k = None"
  by (auto simp: attr_call_def)

lemma attr_call_target:
  "attr_call String props k' = Some (SetAttribute k s) \<Longrightarrow> k' = k"
  "attr_call String props k' = Some (RemoveAttribute k) \<Longrightarrow> k' = k"
  by (auto simp: attr_call_def Let_def split: if_splits)

lemma html_calls_origin:
  "c \<in> set (html_calls String props) \<Longrightarrow> \<exists>k'. attr_call String props k' = Some c"
  by (auto simp: html_calls_def List.map_filter_def)

lemma get_prop_delete:
  "k' \<noteq> k \<Longrightarrow> get_prop (JObj (AList.delete k ps)) k' = get_prop (JObj ps) k'"
  by (simp add: get_prop_def delete_conv')

lemma attr_call_delete:
  "k' \<noteq> k \<Longrightarrow> attr_call String (JObj (AList.delete k ps)) k' = attr_call String (JObj ps) k'"
  by (simp add: attr_call_def get_prop_delete)

lemma map_filter_skip:
  "f k = None \<Longrightarrow> List.map_filter f (filter (\<lambda>k'. k' \<noteq> k) ks) = List.map_filter f ks"
  by (induction ks) (auto split: option.splits)

lemma map_filter_cong_on:
  "(\<And>x. x \<in> set xs \<Longrightarrow> f x = g x) \<Longrightarrow> List.map_filter f xs = List.map_filter g xs"
  by (induction xs) (auto split: option.splits)

lemma keys_delete: "map fst (AList.delete k ps) = filter (\<lambda>k'. k' \<noteq> k) (map fst ps)"
  by (induction ps) auto

lemma html_calls_delete:
  assumes "get_prop (JObj ps) k = JNull \<or> get_prop (JObj ps) k = JUndefined"
  shows "html_calls String (JObj (AList.delete k ps)) = html_calls String (JObj ps)"
proof -
  have none: "attr_call String (JObj ps) k = None"
    using assms by (rule attr_call_nullish)
  have "html_calls String (JObj (AList.delete k ps))
      = List.map_filter (attr_call String (JObj (AList.delete k ps))) (filter (\<lambda>k'. k' \<noteq> k) (map fst ps))"
    by (simp add: html_calls_def Object_keys_def keys_delete)
  also have "\<dots> = List.map_filter (attr_call String (JObj ps)) (filter (\<lambda>k'. k' \<noteq> k) (map fst ps))"
    by (rule map_filter_cong_on) (simp add: attr_call_delete)
  also have "\<dots> = List.map_filter (attr_call String (JObj ps)) (map fst ps)"
    using none by (rule map_filter_skip)
  finally show ?thesis by (simp add: html_calls_def Object_keys_def)
qed

text \<open>
  C1. When the producer returns an \<^verbatim>\<open><html>\<close> wrapper with a props object, the
  operations the wrapped producer performs on the root element are exactly, in key
  order, the reflections of the keys of props: none for \<^verbatim>\<open>children\<close>, \<^verbatim>\<open>ref\<close> and
  for null or undefined values; an assignment of \<^verbatim>\<open>className\<close> to the value for
  \<^verbatim>\<open>class\<close> and \<^verbatim>\<open>className\<close>; otherwise \<^verbatim>\<open>setAttribute(key, "")\<close> for true,
  \<^verbatim>\<open>removeAttribute(key)\<close> for false, and \<^verbatim>\<open>setAttribute(key, String(value))\<close> for
  every other value. The world after the wrapped producer (or the exception it
  throws) is that of performing these operations one after the other, a host
  exception ending the run. In particular every entry of props (an object has each
  key once) outside the exclusions has its operation in this sequence.
\<close>

theorem html_props_reflected:
  assumes "fn w = Inr (result, wp)" and "is_html_wrapper result"
    and "get_prop result ''props'' = JObj ps"
  shows "map_sum id snd (wrappedFn h fn w)
       = forEach (perform h)
           (List.map_filter (\<lambda>k. reflected_call (String_of h) k (get_prop (JObj ps) k)) (map fst ps)) wp
     \<and> (\<forall>(k, v) \<in> set ps. distinct (map fst ps) \<longrightarrow> k \<noteq> ''children'' \<longrightarrow> k \<noteq> ''ref''
           \<longrightarrow> v \<noteq> JNull \<longrightarrow> v \<noteq> JUndefined \<longrightarrow>
           (if k = ''class'' \<or> k = ''className'' then SetClassName v
            else if v = JBool True then SetAttribute k ''''
            else if v = JBool False then RemoveAttribute k
            else SetAttribute k (String_of h v))
           \<in> set (List.map_filter (\<lambda>k. reflected_call (String_of h) k (get_prop (JObj ps) k)) (map fst ps)))"
proof (intro conjI)
  have "html_calls (String_of h) (JObj ps)
      = List.map_filter (\<lambda>k. reflected_call (String_of h) k (get_prop (JObj ps) k)) (map fst ps)"
    by (simp add: html_calls_def Object_keys_def attr_call_reflected [abs_def])
  then show "map_sum id snd (wrappedFn h fn w)
       = forEach (perform h)
           (List.map_filter (\<lambda>k. reflected_call (String_of h) k (get_prop (JObj ps) k)) (map fst ps)) wp"
    using wrappedFn_html [of fn w result wp ps h, OF assms] by (simp split: sum.splits)
next
  show "\<forall>(k, v) \<in> set ps. distinct (map fst ps) \<longrightarrow> k \<noteq> ''children'' \<longrightarrow> k \<noteq> ''ref''
           \<longrightarrow> v \<noteq> JNull \<longrightarrow> v \<noteq> JUndefined \<longrightarrow>
           (if k = ''class'' \<or> k = ''className'' then SetClassName v
            else if v = JBool True then SetAttribute k ''''
            else if v = JBool False then RemoveAttribute k
            else SetAttribute k (String_of h v))
           \<in> set (List.map_filter (\<lambda>k. reflected_call (String_of h) k (get_prop (JObj ps) k)) (map fst ps))"
  proof (intro ballI, clarify)
    fix k v
    assume kv: "(k, v) \<in> set ps" and d: "distinct (map fst ps)"
      and k: "k \<noteq> ''children''" "k \<noteq> ''ref''" and v: "v \<noteq> JNull" "v \<noteq> JUndefined"
    have g: "get_prop (JObj ps) k = v" using d kv by (rule get_prop_distinct)
    have mem: "k \<in> set (map fst ps)" using kv by force
    have "reflected_call (String_of h) k (get_prop (JObj ps) k) =
        Some (if k = ''class'' \<or> k = ''className'' then SetClassName v
            else if v = JBool True then SetAttribute k ''''
            else if v = JBool False then RemoveAttribute k
            else SetAttribute k (String_of h v))"
      using k v by (simp add: g reflected_call_def)
    with mem show "(if k = ''class'' \<or> k = ''className'' then SetClassName v
            else if v = JBool True then SetAttribute k ''''
            else if v = JBool False then RemoveAttribute k
            else SetAttribute k (String_of h v))
           \<in> set (List.map_filter (\<lambda>k. reflected_call (String_of h) k (get_prop (JObj ps) k)) (map fst ps))"
      by (rule map_filter_mem)
  qed
qed

theorem html_props_reflected_witness:
  "map_sum id snd (wrappedFn plain_host (returning example_html) [(''lang'', ''en''), (''data-hidden'', ''1'')])
     = Inr [(''lang'', ''fr''), (''class'', ''dark''), (''data-loaded'', '''')]"
  using html_props_reflected [where fn = "returning example_html" and h = plain_host
      and w = "[(''lang'', ''en''), (''data-hidden'', ''1'')]" and result = example_html
      and wp = "[(''lang'', ''en''), (''data-hidden'', ''1'')]"
      and ps = "[(''lang'', JStr ''fr''), (''class'', JStr ''dark''),
                            (''data-loaded'', JBool True), (''data-hidden'', JBool False),
                            (''data-test'', JNull), (''ref'', JFun 0),
                            (''children'', JStr ''body'')]"]
  by (simp add: returning_def example_html_def get_prop_def reflected_call_def plain_host_def
      plain_String_def)

text \<open>
  C2 as stated fails: the props of the wrapper below contain a \<^verbatim>\<open>children\<close> entry,
  whose value is null; the guard \<^verbatim>\<open>if (props.children)\<close> of line 142 is false, and the
  wrapped producer returns the wrapper itself, not the children value.
\<close>

theorem html_children_entry_counterexample:
  "is_html_wrapper childless_html
   \<and> has_prop ''children'' (get_prop childless_html ''props'')
   \<and> get_prop (get_prop childless_html ''props'') ''children'' = JNull
   \<and> wrappedFn plain_host (returning childless_html) [] = Inr (childless_html, [(''lang'', ''fr'')])
   \<and> childless_html \<noteq> JNull"
  by (simp add: childless_html_def returning_def wrappedFn_def has_prop_def get_prop_def
      Object_keys_def apply_attr_def attr_call_def plain_host_def plain_String_def)

text \<open>
  C2, as amended. For an \<^verbatim>\<open><html>\<close> wrapper with a props object whose attribute
  operations do not throw, the wrapped producer returns \<^verbatim>\<open>props.children\<close> when that
  value is truthy, and the original result when \<^verbatim>\<open>children\<close> is absent or falsy
  (null, undefined, false, 0, NaN, the empty string). When the result is not an
  \<^verbatim>\<open><html>\<close> wrapper, the wrapped producer returns it unchanged.
\<close>

theorem html_children_forwarded:
  assumes "fn w = Inr (result, wp)"
  shows "(is_html_wrapper result \<longrightarrow> get_prop result ''props'' = JObj ps \<longrightarrow>
          forEach (perform h) (html_calls (String_of h) (JObj ps)) wp = Inr wq \<longrightarrow>
          wrappedFn h fn w =
            Inr (if truthy (get_prop (JObj ps) ''children'')
                 then get_prop (JObj ps) ''children'' else result, wq))
       \<and> (\<not> is_html_wrapper result \<longrightarrow> wrappedFn h fn w = Inr (result, wp))"
proof (intro conjI impI)
  assume "is_html_wrapper result" and "get_prop result ''props'' = JObj ps"
    and run: "forEach (perform h) (html_calls (String_of h) (JObj ps)) wp = Inr wq"
  then show "wrappedFn h fn w =
            Inr (if truthy (get_prop (JObj ps) ''children'')
                 then get_prop (JObj ps) ''children'' else result, wq)"
    using wrappedFn_html [of fn w result wp ps h] assms by simp
next
  assume "\<not> is_html_wrapper result"
  with assms show "wrappedFn h fn w = Inr (result, wp)"
    by (simp add: wrappedFn_def is_html_wrapper_iff [symmetric])
qed

theorem html_children_forwarded_witness:
  "wrappedFn plain_host (returning example_html) [] = Inr (JStr ''body'', [(''lang'', ''fr''), (''class'', ''dark''), (''data-loaded'', '''')])
   \<and> wrappedFn plain_host (returning childless_html) [] = Inr (childless_html, [(''lang'', ''fr'')])
   \<and> wrappedFn plain_host (returning (JStr ''text content'')) [] = Inr (JStr ''text content'', [])"
  using html_children_forwarded [where fn = "returning example_html" and h = plain_host
      and w = "[]" and result = example_html and wp = "[]"
      and wq = "[(''lang'', ''fr''), (''class'', ''dark''), (''data-loaded'', '''')]"
      and ps = "[(''lang'', JStr ''fr''), (''class'', JStr ''dark''),
                            (''data-loaded'', JBool True), (''data-hidden'', JBool False),
                            (''data-test'', JNull), (''ref'', JFun 0),
                            (''children'', JStr ''body'')]"]
    html_children_forwarded [where fn = "returning childless_html" and h = plain_host
      and w = "[]" and result = childless_html and wp = "[]" and wq = "[(''lang'', ''fr'')]"
      and ps = "[(''lang'', JStr ''fr''), (''children'', JNull)]"]
    html_children_forwarded [where fn = "returning (JStr ''text content'')" and h = plain_host
      and w = "[]" and result = "JStr ''text content''" and wp = "[]" and wq = "[]" and ps = "[]"]
  by (simp add: returning_def example_html_def childless_html_def get_prop_def html_calls_def
      Object_keys_def attr_call_def plain_host_def plain_String_def)

lemma forEach_preserves:
  assumes "forEach (perform h) cs u = Inr u'"
    and "\<And>c v v'. c \<in> set cs \<Longrightarrow> perform h c v = Inr v' \<Longrightarrow> obs v' = obs v"
  shows "obs u' = obs u"
  using assms
proof (induction cs arbitrary: u)
  case Nil
  then show ?case by simp
next
  case (Cons c cs)
  from Cons.prems(1) obtain v where step: "perform h c u = Inr v" and rest: "forEach (perform h) cs v = Inr u'"
    by (auto split: sum.splits)
  have "obs u' = obs v"
    using rest Cons.prems(2) by (intro Cons.IH) auto
  moreover have "obs v = obs u"
    using step Cons.prems(2) by auto
  ultimately show ?case by simp
qed

text \<open>
  C3. For a key of the wrapper's props whose value is null or undefined, nothing is
  applied to the root element for that key: the callback issues no operation for it
  and returns every world \<open>w'\<close> as it was, whatever the host; the operations of the
  whole call contain no \<^verbatim>\<open>setAttribute\<close> and no \<^verbatim>\<open>removeAttribute\<close> on that key; the
  whole call acts on the world exactly as it does for the props without that entry;
  and whatever can be observed of the root element that the operations of the other
  entries leave unchanged (the value of that attribute, when none of them assigns
  it) is, after the call, what it was before.
\<close>

theorem nullish_attribute_not_applied:
  assumes "fn w = Inr (result, wp)" and "is_html_wrapper result"
    and "get_prop result ''props'' = JObj ps"
    and "k \<in> set (Object_keys (JObj ps))"
    and "get_prop (JObj ps) k = JNull \<or> get_prop (JObj ps) k = JUndefined"
  shows "attr_call (String_of h) (JObj ps) k = None
     \<and> apply_attr h (JObj ps) k w' = Inr w'
     \<and> RemoveAttribute k \<notin> set (html_calls (String_of h) (JObj ps))
     \<and> SetAttribute k s \<notin> set (html_calls (String_of h) (JObj ps))
     \<and> map_sum id snd (wrappedFn h fn w)
         = forEach (perform h) (html_calls (String_of h) (JObj (AList.delete k ps))) wp
     \<and> ((\<forall>c \<in> set (html_calls (String_of h) (JObj (AList.delete k ps))).
            \<forall>v v'. perform h c v = Inr v' \<longrightarrow> obs v' = obs v) \<longrightarrow>
          wrappedFn h fn w = Inr (r, wq) \<longrightarrow> obs wq = obs wp)"
proof -
  have none: "attr_call (String_of h) (JObj ps) k = None"
    using assms(5) by (rule attr_call_nullish)
  have noop: "apply_attr h (JObj ps) k w' = Inr w'"
    by (simp add: apply_attr_def none)
  have no_remove: "RemoveAttribute k \<notin> set (html_calls (String_of h) (JObj ps))"
  proof
    assume "RemoveAttribute k \<in> set (html_calls (String_of h) (JObj ps))"
    then obtain k' where "attr_call (String_of h) (JObj ps) k' = Some (RemoveAttribute k)"
      using html_calls_origin by blast
    moreover from this have "k' = k" by (rule attr_call_target)
    ultimately show False using none by simp
  qed
  have no_set: "SetAttribute k s \<notin> set (html_calls (String_of h) (JObj ps))"
  proof
    assume "SetAttribute k s \<in> set (html_calls (String_of h) (JObj ps))"
    then obtain k' where "attr_call (String_of h) (JObj ps) k' = Some (SetAttribute k s)"
      using html_calls_origin by blast
    moreover from this have "k' = k" by (rule attr_call_target)
    ultimately show False using none by simp
  qed
  have "map_sum id snd (wrappedFn h fn w)
      = forEach (perform h) (html_calls (String_of h) (JObj ps)) wp"
    using wrappedFn_html [of fn w result wp ps h, OF assms(1-3)] by (simp split: sum.splits)
  then have whole: "map_sum id snd (wrappedFn h fn w)
      = forEach (perform h) (html_calls (String_of h) (JObj (AList.delete k ps))) wp"
    using html_calls_delete [OF assms(5), of "String_of h"] by simp
  have frame: "(\<forall>c \<in> set (html_calls (String_of h) (JObj (AList.delete k ps))).
            \<forall>v v'. perform h c v = Inr v' \<longrightarrow> obs v' = obs v) \<longrightarrow>
          wrappedFn h fn w = Inr (r, wq) \<longrightarrow> obs wq = obs wp"
  proof (intro impI)
    assume pres: "\<forall>c \<in> set (html_calls (String_of h) (JObj (AList.delete k ps))).
            \<forall>v v'. perform h c v = Inr v' \<longrightarrow> obs v' = obs v"
      and ret: "wrappedFn h fn w = Inr (r, wq)"
    from ret whole have "forEach (perform h) (html_calls (String_of h) (JObj (AList.delete k ps))) wp = Inr wq"
      by simp
    then show "obs wq = obs wp"
    proof (rule forEach_preserves)
      fix c v v'
      assume "c \<in> set (html_calls (String_of h) (JObj (AList.delete k ps)))"
        and "perform h c v = Inr v'"
      with pres show "obs v' = obs v" by blast
    qed
  qed
  from none noop no_remove no_set whole frame show ?thesis by blast
qed

theorem nullish_attribute_not_applied_witness:
  "apply_attr plain_host (get_prop nullish_html ''props'') ''data-test'' [(''data-test'', ''value'')]
     = Inr [(''data-test'', ''value'')]
   \<and> wrappedFn plain_host (returning nullish_html) [(''data-test'', ''value'')]
     = Inr (nullish_html, [(''data-test'', ''value''), (''lang'', ''fr'')])
   \<and> map_of [(''data-test'', ''value''), (''lang'', ''fr'')] ''data-test''
     = map_of [(''data-test'', ''value'')] ''data-test''"
proof -
  have run: "wrappedFn plain_host (returning nullish_html) [(''data-test'', ''value'')]
     = Inr (nullish_html, [(''data-test'', ''value''), (''lang'', ''fr'')])"
    by (simp add: returning_def nullish_html_def get_prop_def wrappedFn_def has_prop_def
      Object_keys_def apply_attr_def attr_call_def plain_host_def plain_String_def)
  have pres: "\<forall>c \<in> set (html_calls (String_of plain_host)
        (JObj (AList.delete ''data-test'' [(''data-test'', JNull), (''data-undefined'', JUndefined),
                            (''lang'', JStr ''fr''), (''children'', JNull)]))).
      \<forall>v v'. perform plain_host c v = Inr v' \<longrightarrow> map_of v' ''data-test'' = map_of v ''data-test''"
    by (auto simp: html_calls_def Object_keys_def attr_call_def get_prop_def plain_host_def
        plain_String_def update_conv')
  from nullish_attribute_not_applied [where fn = "returning nullish_html" and h = plain_host
      and w = "[(''data-test'', ''value'')]" and result = nullish_html
      and wp = "[(''data-test'', ''value'')]" and k = "''data-test''"
      and w' = "[(''data-test'', ''value'')]" and s = "''value''"
      and obs = "\<lambda>al. map_of al ''data-test''" and r = nullish_html
      and wq = "[(''data-test'', ''value''), (''lang'', ''fr'')]"
      and ps = "[(''data-test'', JNull), (''data-undefined'', JUndefined),
                            (''lang'', JStr ''fr''), (''children'', JNull)]"]
    run pres
  show ?thesis
    by (simp add: returning_def nullish_html_def get_prop_def Object_keys_def)
qed

lemma spec_dispose_safe: "spec_dispose element p = Inr q \<Longrightarrow> spec_dispose element q = Inr q"
  by (auto simp: spec_dispose_def)

lemma spec_hydrateCore_safe: "returns_safe_disposers spec_hydrateCore"
  by (auto simp: returns_safe_disposers_def safe_to_invoke_def spec_hydrateCore_def spec_dispose_def
      split: sum.splits)

text \<open>
  C5. For every producer, every options value (absent, or any object) and every
  world, \<^verbatim>\<open>hydrateDocument\<close> is the core hydration routine applied to the wrapped
  producer, \<^verbatim>\<open>document.documentElement\<close> and the very options it received, run in the
  world in which hydration mode has been enabled first; so it returns or throws
  exactly what that routine does. The disposer is the one the routine returns: it is
  safe to invoke whenever the routine's disposers are, and with the routine modelled
  from the specification it can be invoked, and invoked again, without throwing.
\<close>

theorem hydrateDocument_delegates:
  "hydrateDocument rt h fn options w
     = hydrateCore rt (wrappedFn h fn) DocumentElement options (enableHydration rt w)
   \<and> (returns_safe_disposers (hydrateCore rt) \<longrightarrow>
        hydrateDocument rt h fn options w = Inr (d, w') \<longrightarrow> safe_to_invoke d)
   \<and> (hydrateDocument spec_hydration hp fp options p = Inr (dp, p') \<longrightarrow>
        (\<exists>q'. dp q = Inr q' \<and> dp q' = Inr q'))"
proof (intro conjI impI)
  show "hydrateDocument rt h fn options w
     = hydrateCore rt (wrappedFn h fn) DocumentElement options (enableHydration rt w)"
    by (simp add: hydrateDocument_def)
next
  assume "returns_safe_disposers (hydrateCore rt)"
    and "hydrateDocument rt h fn options w = Inr (d, w')"
  then show "safe_to_invoke d"
    unfolding hydrateDocument_def returns_safe_disposers_def by blast
next
  assume a: "hydrateDocument spec_hydration hp fp options p = Inr (dp, p')"
  then have "dp = spec_dispose DocumentElement"
    by (auto simp: hydrateDocument_def spec_hydration_def spec_hydrateCore_def split: sum.splits)
  then show "\<exists>q'. dp q = Inr q' \<and> dp q' = Inr q'"
    by (simp add: spec_dispose_def)
qed

theorem hydrateDocument_delegates_witness:
  "hydrateDocument spec_hydration page_host (returning example_html)
       (JObj [(''renderId'', JStr ''app'')]) blank_page
     = Inr (spec_dispose DocumentElement,
         \<lparr> root_attributes = [(''lang'', ''fr''), (''class'', ''dark''), (''data-loaded'', '''')],
           hydration_mode = True,
           hydrated = [(DocumentElement, JStr ''body'', JObj [(''renderId'', JStr ''app'')])] \<rparr>)
   \<and> safe_to_invoke (spec_dispose DocumentElement)"
proof -
  have run: "hydrateDocument spec_hydration page_host (returning example_html)
       (JObj [(''renderId'', JStr ''app'')]) blank_page
     = Inr (spec_dispose DocumentElement,
         \<lparr> root_attributes = [(''lang'', ''fr''), (''class'', ''dark''), (''data-loaded'', '''')],
           hydration_mode = True,
           hydrated = [(DocumentElement, JStr ''body'', JObj [(''renderId'', JStr ''app'')])] \<rparr>)"
    by (simp add: hydrateDocument_def spec_hydration_def spec_hydrateCore_def blank_page_def
        returning_def example_html_def wrappedFn_def has_prop_def get_prop_def Object_keys_def
        apply_attr_def attr_call_def page_host_def plain_String_def)
  have safe: "returns_safe_disposers (hydrateCore spec_hydration)"
    by (simp add: spec_hydration_def spec_hydrateCore_safe)
  from hydrateDocument_delegates [where rt = spec_hydration and h = page_host
      and fn = "returning example_html" and options = "JObj [(''renderId'', JStr ''app'')]"
      and w = blank_page and d = "spec_dispose DocumentElement"
      and w' = "\<lparr> root_attributes = [(''lang'', ''fr''), (''class'', ''dark''), (''data-loaded'', '''')],
           hydration_mode = True,
           hydrated = [(DocumentElement, JStr ''body'', JObj [(''renderId'', JStr ''app'')])] \<rparr>"]
    run safe
  show ?thesis by blast
qed

section \<open>Properties of createDynamic and Dynamic\<close>

lemma typeof_function_iff: "(typeof c = ''function'') = (\<exists>f. c = JFun f)"
  by (cases c) simp_all

lemma typeof_string_iff: "(typeof c = ''string'') = (\<exists>s. c = JStr s)"
  by (cases c) simp_all

lemma dynamic_body_default:
  "typeof c \<noteq> ''function'' \<Longrightarrow> typeof c \<noteq> ''string'' \<Longrightarrow> dynamic_body env props c w = Inr (JUndefined, w)"
  by (cases c) simp_all

text \<open>
  C8. When the current value of the selector is neither a function nor a string
  (undefined in particular), the memo of \<^verbatim>\<open>createDynamic\<close> computes undefined and
  leaves the world as it found it, in every environment, also one whose primitives
  all throw: no element is created or adopted, no props are spread, nothing is thrown.
\<close>

theorem createDynamic_default_undefined:
  assumes "typeof component \<noteq> ''function''" and "typeof component \<noteq> ''string''"
  shows "dynamic_body env props component w = Inr (JUndefined, w)
     \<and> (cached v = Inr (component, w) \<longrightarrow> dynamic_computation env cached props v = Inr (JUndefined, w))"
  using assms by (simp add: dynamic_body_default dynamic_computation_def)

theorem createDynamic_default_undefined_witness:
  "dynamic_body (logging_env False) example_props JUndefined [] = Inr (JUndefined, [])
   \<and> dynamic_computation (logging_env True) (returning (JNum (Finite 3))) example_props [''x'']
       = Inr (JUndefined, [''x''])"
  using createDynamic_default_undefined [where component = JUndefined and env = "logging_env False"
      and props = example_props and w = "[]" and cached = "returning JUndefined" and v = "[]"]
    createDynamic_default_undefined [where component = "JNum (Finite 3)" and env = "logging_env True"
      and props = example_props and w = "[''x'']" and cached = "returning (JNum (Finite 3))"
      and v = "[''x'']"]
  by (simp add: returning_def)



lemma map_of_filter_key:
  "map_of (filter (\<lambda>kv. fst kv \<noteq> c) ps) k = (if k = c then None else map_of ps k)"
  by (induction ps) auto

lemma read_prop_split:
  "read_prop (snd (split_props props [c])) k v = (if k = c then JUndefined else read_prop props k v)"
  by (simp add: split_props_def read_prop_def map_of_filter_key)

text \<open>
  C9. \<^verbatim>\<open>Dynamic\<close> is \<^verbatim>\<open>createDynamic\<close> on the selector that reads \<^verbatim>\<open>props.component\<close> in
  the world of each invocation, and on the second result of
  \<^verbatim>\<open>splitProps(props, ["component"])\<close>; a component function is called on that second
  result. With \<^verbatim>\<open>splitProps\<close> the partition by key, it is the received props without
  the key \<^verbatim>\<open>component\<close>: reading \<^verbatim>\<open>component\<close> from it gives undefined, every other
  property reads as in the received props.
\<close>

theorem Dynamic_forwards_others:
  "Dynamic env props w =
     createDynamic env (\<lambda>v. Inr (read_prop props ''component'' v, v))
       (snd (splitProps env props [''component''])) w
   \<and> dynamic_body env (snd (splitProps env props [''component''])) (JFun f) v =
       untrack env (call_component env f (snd (splitProps env props [''component''])))
         (if isDev env then assign_DEVCOMP env f v else v)
   \<and> (splitProps env = split_props \<longrightarrow>
        snd (splitProps env props [''component'']) = filter (\<lambda>kv. fst kv \<noteq> ''component'') props
        \<and> ''component'' \<notin> fst ` set (snd (splitProps env props [''component'']))
        \<and> read_prop (snd (splitProps env props [''component''])) ''component'' v = JUndefined
        \<and> (\<forall>k. k \<noteq> ''component'' \<longrightarrow>
              read_prop (snd (splitProps env props [''component''])) k v = read_prop props k v))"
proof (intro conjI impI)
  show "Dynamic env props w =
     createDynamic env (\<lambda>v. Inr (read_prop props ''component'' v, v))
       (snd (splitProps env props [''component''])) w"
    by (simp add: Dynamic_def Let_def)
next
  show "dynamic_body env (snd (splitProps env props [''component''])) (JFun f) v =
       untrack env (call_component env f (snd (splitProps env props [''component''])))
         (if isDev env then assign_DEVCOMP env f v else v)"
    by simp
next
  assume sp: "splitProps env = split_props"
  show "snd (splitProps env props [''component'']) = filter (\<lambda>kv. fst kv \<noteq> ''component'') props"
    by (simp add: sp split_props_def)
  then show "''component'' \<notin> fst ` set (snd (splitProps env props [''component'']))"
    by auto
  show "read_prop (snd (splitProps env props [''component''])) ''component'' v = JUndefined"
    by (simp add: sp read_prop_split)
  show "\<forall>k. k \<noteq> ''component'' \<longrightarrow>
              read_prop (snd (splitProps env props [''component''])) k v = read_prop props k v"
    by (simp add: sp read_prop_split)
qed

theorem Dynamic_forwards_others_witness:
  "map fst (snd (splitProps (logging_env False) example_props [''component''])) = [''r'']
   \<and> read_prop (snd (splitProps (logging_env False) example_props [''component''])) ''r'' []
       = JNum (Finite 5)
   \<and> read_prop example_props ''component'' [] = JStr ''circle''
   \<and> read_prop example_props ''component'' [''later''] = JUndefined
   \<and> Dynamic (logging_env False) example_props []
       = Inr (returning (JNode (OtherNode 1)),
              [''untrack'', ''tracked'', ''createElementNS circle'', ''spread''])"
  using Dynamic_forwards_others [where env = "logging_env False" and props = example_props
      and w = "[]" and v = "[]" and f = 0]
  by (simp add: logging_env_def example_props_def split_props_def read_prop_def returning_def
      createDynamic_def dynamic_computation_def createElement_def)

section \<open>Properties of Portal\<close>

lemma mount_default:
  "\<not> truthy (read_prop props ''mount'' w) \<Longrightarrow> mount props w = JNode DocumentBody"
  by (simp add: mount_def)






end
